theory Spec2Isabelle
  imports Main
begin

section \<open>The stock data fetcher: \<^verbatim>\<open>data/fetch_stock_data.py\<close>\<close>

text \<open>
  The script loops over a fixed registry of ticker symbols. For each symbol it issues one
  HTTP GET, parses the body as JSON, inspects the top-level keys of the parsed value and,
  when the daily time series is there, writes it to a file named after the symbol. Between
  calls it sleeps. Everything the function does to the outside world (requests, sleeps,
  console lines, files) is made explicit in a state that is passed along; everything the
  outside world decides (whether the directory exists, what the server answers, whether a
  write goes through) is read from an environment.
\<close>

subsection \<open>Parsed JSON values and the Python operators applied to them\<close>

text \<open>
  The value returned by \<^verbatim>\<open>response.json()\<close>: a dict, a list, a string, a number, a
  boolean or \<^verbatim>\<open>None\<close>. A dict is an association list read with \<open>map_of\<close>. Numbers
  are kept as their literal: the script never computes with them.
\<close>

datatype json =
    JNull
  | JBool bool
  | JNum string
  | JStr string
  | JArr "json list"
  | JObj "(string \<times> json) list"

text \<open>\<^verbatim>\<open>s.startswith(k)\<close> and the substring test \<^verbatim>\<open>k in s\<close> on two strings.\<close>

fun startswith :: "string \<Rightarrow> string \<Rightarrow> bool" where
  "startswith s [] = True"
| "startswith [] (k # ks) = False"
| "startswith (c # cs) (k # ks) = (c = k \<and> startswith cs ks)"

fun str_contains :: "string \<Rightarrow> string \<Rightarrow> bool" where
  "str_contains k [] = (k = [])"
| "str_contains k (c # cs) = (startswith (c # cs) k \<or> str_contains k cs)"

text \<open>
  The operator \<^verbatim>\<open>k in v\<close> for a string \<open>k\<close>: key membership on a dict, element
  membership on a list, the substring test on a string, and \<^verbatim>\<open>TypeError\<close> (here
  \<open>None\<close>) on a number, a boolean and \<^verbatim>\<open>None\<close>, which are not iterable.
\<close>

fun py_in :: "string \<Rightarrow> json \<Rightarrow> bool option" where
  "py_in k (JObj kvs) = Some (k \<in> set (map fst kvs))"
| "py_in k (JArr xs) = Some (JStr k \<in> set xs)"
| "py_in k (JStr s) = Some (str_contains k s)"
| "py_in k JNull = None"
| "py_in k (JBool b) = None"
| "py_in k (JNum n) = None"

text \<open>
  The subscript \<^verbatim>\<open>v[k]\<close> for a string \<open>k\<close>: the value stored under the key of a
  dict (\<^verbatim>\<open>KeyError\<close> when absent), and \<^verbatim>\<open>TypeError\<close> on everything else. Both
  exceptions are \<open>None\<close>: the script handles them in the same clause.
\<close>

fun py_getitem :: "json \<Rightarrow> string \<Rightarrow> json option" where
  "py_getitem (JObj kvs) k = map_of kvs k"
| "py_getitem (JArr xs) k = None"
| "py_getitem (JStr s) k = None"
| "py_getitem JNull k = None"
| "py_getitem (JBool b) k = None"
| "py_getitem (JNum n) k = None"

subsection \<open>Configuration\<close>

definition SYMBOLS :: "(string \<times> string) list" where
  "SYMBOLS =
     [(''SPY'', ''S&P 500 (SPY)''),
      (''QQQ'', ''Nasdaq (QQQ)''),
      (''EXS1.DE'', ''DAX (EXS1.DE)''),
      (''ASHR'', ''China A50 (ASHR)''),
      (''EWJ'', ''Japan (EWJ)'')]"

definition OUTPUT_DIR :: string where
  "OUTPUT_DIR = ''data/stock''"

definition call_interval_seconds :: nat where
  "call_interval_seconds = 15"

definition time_series_key :: string where
  "time_series_key = ''Time Series (Daily)''"

subsection \<open>Paths\<close>

text \<open>\<^verbatim>\<open>file_name = f"{symbol}.json"\<close>\<close>

definition file_name :: "string \<Rightarrow> string" where
  "file_name symbol = symbol @ ''.json''"

text \<open>
  \<^verbatim>\<open>os.path.join(a, b)\<close> on a POSIX system: an absolute \<open>b\<close> replaces \<open>a\<close>, and a
  separator is put between the two unless \<open>a\<close> is empty or already ends with one.
\<close>

definition path_join :: "string \<Rightarrow> string \<Rightarrow> string" where
  "path_join a b =
     (if startswith b ''/'' then b
      else if a = [] \<or> last a = CHR ''/'' then a @ b
      else a @ ''/'' @ b)"

definition output_path :: "string \<Rightarrow> string" where
  "output_path symbol = path_join OUTPUT_DIR (file_name symbol)"

subsection \<open>The environment\<close>

text \<open>
  What \<^verbatim>\<open>requests.get\<close> gives: an exception of the library (no connection, a
  timeout, too many redirects), or a response with its status code and its body, the body
  being \<open>Some\<close> of the parsed value when it is valid JSON and \<open>None\<close> when it is not.
\<close>

datatype http_result =
    ConnectionFailed
  | Response nat "json option"

text \<open>
  \<^verbatim>\<open>response.raise_for_status()\<close> of the requests library raises \<^verbatim>\<open>HTTPError\<close>
  for a client error (4xx) and for a server error (5xx), and for no other status code.
\<close>

definition raise_for_status :: "nat \<Rightarrow> bool" where
  "raise_for_status status_code = (400 \<le> status_code \<and> status_code < 600)"

text \<open>
  What opening the file for writing and dumping the value into it gives: the file holds
  the value; or \<^verbatim>\<open>open\<close> raised and the file is as it was; or \<^verbatim>\<open>json.dump\<close>
  raised after \<^verbatim>\<open>open\<close> had truncated the file, either an \<^verbatim>\<open>IOError\<close>, which
  line 106 catches, or another exception (a string that UTF-8 cannot encode), which goes
  on to line 114.
\<close>

datatype write_result = WriteOk | OpenFailed | DumpFailed | DumpRaised

datatype file_content = Complete json | Truncated

record env =
  dir_exists :: bool
  makedirs_ok :: bool
  http_get :: "string \<Rightarrow> http_result"
  write_file :: "string \<Rightarrow> write_result"

subsection \<open>The state and what the script does to it\<close>

datatype message =
    MsgStart
  | MsgDirCreated string
  | MsgDirError string
  | MsgProcessing nat nat string string
  | MsgApiError json
  | MsgRateLimit
  | MsgNote json
  | MsgInformation json
  | MsgMissingKey string
  | MsgSaved string
  | MsgWriteError string
  | MsgRequestError
  | MsgJsonError
  | MsgUnknownError
  | MsgWaiting nat
  | MsgSummary nat nat

datatype event =
    Print message
  | HttpGet string
  | Sleep nat

record state =
  symbols_processed :: nat
  files :: "string \<rightharpoonup> file_content"
  trace :: "event list"

definition emit :: "event \<Rightarrow> state \<Rightarrow> state" where
  "emit e s = s\<lparr>trace := trace s @ [e]\<rparr>"

subsection \<open>Classifying a parsed response (lines 71 to 92)\<close>

text \<open>
  The outcome of the key tests, in the order of the source. \<open>Raised\<close> is an exception
  out of one of the tests or subscripts; the last \<^verbatim>\<open>except\<close> clause catches it.
\<close>

datatype classification =
    ApiError json
  | RateLimit json
  | Information json
  | MissingKey
  | TimeSeries json
  | Raised

text \<open>
  \<^verbatim>\<open>"Note" in data and "API call frequency" in data["Note"]\<close>: the right operand is
  evaluated only when the left one is true.
\<close>

definition note_test :: "json \<Rightarrow> bool option" where
  "note_test data =
     (case py_in ''Note'' data of
        None \<Rightarrow> None
      | Some False \<Rightarrow> Some False
      | Some True \<Rightarrow>
          (case py_getitem data ''Note'' of
             None \<Rightarrow> None
           | Some n \<Rightarrow> py_in ''API call frequency'' n))"

definition classify :: "json \<Rightarrow> classification" where
  "classify data =
     (case py_in ''Error Message'' data of
        None \<Rightarrow> Raised
      | Some True \<Rightarrow>
          (case py_getitem data ''Error Message'' of
             None \<Rightarrow> Raised
           | Some m \<Rightarrow> ApiError m)
      | Some False \<Rightarrow>
          (case note_test data of
             None \<Rightarrow> Raised
           | Some True \<Rightarrow>
               (case py_getitem data ''Note'' of
                  None \<Rightarrow> Raised
                | Some n \<Rightarrow> RateLimit n)
           | Some False \<Rightarrow>
               (case py_in ''Information'' data of
                  None \<Rightarrow> Raised
                | Some True \<Rightarrow>
                    (case py_getitem data ''Information'' of
                       None \<Rightarrow> Raised
                     | Some i \<Rightarrow> Information i)
                | Some False \<Rightarrow>
                    (case py_in time_series_key data of
                       None \<Rightarrow> Raised
                     | Some False \<Rightarrow> MissingKey
                     | Some True \<Rightarrow>
                         (case py_getitem data time_series_key of
                            None \<Rightarrow> Raised
                          | Some ts \<Rightarrow> TimeSeries ts)))))"

subsection \<open>One iteration of the loop (lines 52 to 120)\<close>

text \<open>
  Lines 100 to 107: the write, its success line and the counter, or the error line. An
  exception that line 106 does not catch leaves the \<^verbatim>\<open>try\<close> statement through line 114;
  in each case lines 117 to 120 come next.
\<close>

definition save :: "env \<Rightarrow> string \<Rightarrow> json \<Rightarrow> state \<Rightarrow> state" where
  "save e symbol time_series_data s =
     (let p = output_path symbol in
      case write_file e p of
        WriteOk \<Rightarrow>
          (emit (Print (MsgSaved p))
             (s\<lparr>files := (files s)(p \<mapsto> Complete time_series_data)\<rparr>))
          \<lparr>symbols_processed := symbols_processed s + 1\<rparr>
      | OpenFailed \<Rightarrow> emit (Print (MsgWriteError p)) s
      | DumpFailed \<Rightarrow>
          emit (Print (MsgWriteError p)) (s\<lparr>files := (files s)(p \<mapsto> Truncated)\<rparr>)
      | DumpRaised \<Rightarrow>
          emit (Print MsgUnknownError) (s\<lparr>files := (files s)(p \<mapsto> Truncated)\<rparr>))"

text \<open>
  How the body of the \<^verbatim>\<open>try\<close> statement is left: by \<^verbatim>\<open>continue\<close>, which goes to
  the next symbol at once, or at its end (also through an \<^verbatim>\<open>except\<close> clause), after
  which lines 117 to 120 run.
\<close>

datatype flow = Continue | FallThrough

text \<open>
  Lines 63 to 115. A body that is not JSON makes \<^verbatim>\<open>response.json()\<close> raise; which of
  the clauses of lines 109 and 111 catches it depends on the version of the requests
  library, and both only print, so it is one message here, as are the two lines of each
  report.
\<close>

definition try_body :: "env \<Rightarrow> string \<Rightarrow> state \<Rightarrow> flow \<times> state" where
  "try_body e symbol s =
     (let s1 = emit (HttpGet symbol) s in
      case http_get e symbol of
        ConnectionFailed \<Rightarrow> (FallThrough, emit (Print MsgRequestError) s1)
      | Response status_code body \<Rightarrow>
          if raise_for_status status_code
          then (FallThrough, emit (Print MsgRequestError) s1)
          else
            (case body of
               None \<Rightarrow> (FallThrough, emit (Print MsgJsonError) s1)
             | Some data \<Rightarrow>
                 (case classify data of
                    ApiError m \<Rightarrow> (Continue, emit (Print (MsgApiError m)) s1)
                  | RateLimit n \<Rightarrow>
                      (Continue, emit (Print (MsgNote n)) (emit (Print MsgRateLimit) s1))
                  | Information i \<Rightarrow> (Continue, emit (Print (MsgInformation i)) s1)
                  | MissingKey \<Rightarrow> (Continue, emit (Print (MsgMissingKey time_series_key)) s1)
                  | TimeSeries ts \<Rightarrow> (FallThrough, save e symbol ts s1)
                  | Raised \<Rightarrow> (FallThrough, emit (Print MsgUnknownError) s1))))"

text \<open>Lines 117 to 120: the wait, guarded by the counter of saved symbols.\<close>

definition wait :: "nat \<Rightarrow> state \<Rightarrow> state" where
  "wait total_symbols s =
     (if symbols_processed s < total_symbols
      then emit (Sleep call_interval_seconds) (emit (Print (MsgWaiting call_interval_seconds)) s)
      else s)"

definition iteration :: "env \<Rightarrow> nat \<Rightarrow> string \<times> string \<Rightarrow> state \<Rightarrow> state" where
  "iteration e total_symbols item s =
     (let s0 = emit (Print (MsgProcessing (symbols_processed s + 1) total_symbols
                               (fst item) (snd item))) s in
      case try_body e (fst item) s0 of
        (Continue, s') \<Rightarrow> s'
      | (FallThrough, s') \<Rightarrow> wait total_symbols s')"

subsection \<open>The loop and the whole function\<close>

fun loop :: "env \<Rightarrow> nat \<Rightarrow> (string \<times> string) list \<Rightarrow> state \<Rightarrow> state" where
  "loop e total_symbols [] s = s"
| "loop e total_symbols (item # items) s =
     loop e total_symbols items (iteration e total_symbols item s)"

text \<open>
  Lines 48 to 123, for a registry given as the list of its items in insertion order.
\<close>

definition process_all :: "(string \<times> string) list \<Rightarrow> env \<Rightarrow> state \<Rightarrow> state" where
  "process_all registry e s =
     (let total_symbols = length registry;
          s' = loop e total_symbols registry (s\<lparr>symbols_processed := 0\<rparr>)
      in emit (Print (MsgSummary (symbols_processed s') total_symbols)) s')"

text \<open>
  The function from its first line, started on the files that are on disk and an empty
  trace. The directory is created when it is missing; when that fails the function
  returns at line 42.
\<close>

definition initial :: "(string \<rightharpoonup> file_content) \<Rightarrow> state" where
  "initial fs = \<lparr>symbols_processed = 0, files = fs, trace = []\<rparr>"

definition run :: "(string \<times> string) list \<Rightarrow> env \<Rightarrow> (string \<rightharpoonup> file_content) \<Rightarrow> state" where
  "run registry e fs =
     (let s0 = emit (Print MsgStart) (initial fs) in
      if \<not> dir_exists e then
        if makedirs_ok e
        then process_all registry e (emit (Print (MsgDirCreated OUTPUT_DIR)) s0)
        else emit (Print (MsgDirError OUTPUT_DIR)) s0
      else process_all registry e s0)"

definition fetch_and_save_stock_data :: "env \<Rightarrow> (string \<rightharpoonup> file_content) \<Rightarrow> state" where
  "fetch_and_save_stock_data = run SYMBOLS"

subsection \<open>Reading a trace\<close>

definition sleeps :: "event list \<Rightarrow> nat" where
  "sleeps tr = length (filter (\<lambda>ev. case ev of Sleep n \<Rightarrow> True | _ \<Rightarrow> False) tr)"

definition requests :: "event list \<Rightarrow> string list" where
  "requests tr = concat (map (\<lambda>ev. case ev of HttpGet symbol \<Rightarrow> [symbol] | _ \<Rightarrow> []) tr)"

text \<open>The paths of the success lines (line 103) of a trace, in the order they were printed.\<close>

definition saved_paths :: "event list \<Rightarrow> string list" where
  "saved_paths tr =
     concat (map (\<lambda>ev. case ev of Print (MsgSaved p) \<Rightarrow> [p] | _ \<Rightarrow> []) tr)"

subsection \<open>Saved symbols\<close>

text \<open>
  When the iteration for a symbol reaches line 104: the request went through, the status
  did not raise, the body parsed, the time series was found and the write succeeded.
\<close>

definition saved :: "env \<Rightarrow> string \<Rightarrow> bool" where
  "saved e symbol =
     (case http_get e symbol of
        ConnectionFailed \<Rightarrow> False
      | Response status_code body \<Rightarrow>
          \<not> raise_for_status status_code \<and>
          (case body of
             None \<Rightarrow> False
           | Some data \<Rightarrow>
               (case classify data of
                  TimeSeries ts \<Rightarrow> write_file e (output_path symbol) = WriteOk
                | _ \<Rightarrow> False)))"

subsection \<open>Sample responses and environments\<close>

definition ok_series :: json where
  "ok_series = JObj [(''2025-04-01'', JObj [(''4. close'', JStr ''560.97'')])]"

definition ok_body :: json where
  "ok_body = JObj [(''Meta Data'', JObj []), (''Time Series (Daily)'', ok_series)]"

definition env_ok :: env where
  "env_ok = \<lparr>dir_exists = True, makedirs_ok = True,
              http_get = (\<lambda>symbol. Response 200 (Some ok_body)),
              write_file = (\<lambda>p. WriteOk)\<rparr>"

definition env_error_message :: env where
  "env_error_message = env_ok\<lparr>http_get :=
     (\<lambda>symbol. Response 200 (Some (JObj [(''Error Message'', JStr ''x'')])))\<rparr>"

definition env_http_500 :: env where
  "env_http_500 = env_ok\<lparr>http_get := (\<lambda>symbol. Response 500 None)\<rparr>"

definition env_rate_limit :: env where
  "env_rate_limit = env_ok\<lparr>http_get :=
     (\<lambda>symbol. Response 200
        (Some (JObj [(''Note'', JStr ''Our standard API call frequency is 5 calls per minute.'')])))\<rparr>"

definition env_note_thanks :: env where
  "env_note_thanks = env_ok\<lparr>http_get :=
     (\<lambda>symbol. Response 200 (Some (JObj [(''Note'', JStr ''Thank you'')])))\<rparr>"

definition note_null_series :: json where
  "note_null_series = JObj [(''Note'', JNull), (''Time Series (Daily)'', ok_series)]"

definition note_number :: json where
  "note_number = JObj [(''Note'', JNum ''5'')]"

subsection \<open>The classification as the specification words it\<close>

text \<open>
  The specification speaks of a response that contains a key, and of a note whose value
  mentions the call frequency. Read literally: only a JSON object contains keys, and only
  a string mentions something. The priority order is the specification's: error message,
  rate limit note, information, time series, and otherwise the missing key.
\<close>

definition field :: "json \<Rightarrow> string \<Rightarrow> json option" where
  "field data k = (case data of JObj kvs \<Rightarrow> map_of kvs k | _ \<Rightarrow> None)"

definition mentions_frequency :: "json \<Rightarrow> bool" where
  "mentions_frequency v =
     (case v of JStr t \<Rightarrow> str_contains ''API call frequency'' t | _ \<Rightarrow> False)"

definition spec_classify_rest :: "json \<Rightarrow> classification" where
  "spec_classify_rest data =
     (case field data ''Information'' of
        Some i \<Rightarrow> Information i
      | None \<Rightarrow>
          (case field data ''Time Series (Daily)'' of
             Some ts \<Rightarrow> TimeSeries ts
           | None \<Rightarrow> MissingKey))"

definition spec_classify :: "json \<Rightarrow> classification" where
  "spec_classify data =
     (case field data ''Error Message'' of
        Some m \<Rightarrow> ApiError m
      | None \<Rightarrow>
          (case field data ''Note'' of
             Some n \<Rightarrow> if mentions_frequency n then RateLimit n else spec_classify_rest data
           | None \<Rightarrow> spec_classify_rest data))"

subsection \<open>Failure lines on the console\<close>

text \<open>
  The console lines that report that a symbol was not saved: lines 72, 75, 82, 88, 107,
  110, 112 and 115 of the source. The second line of the rate limit report (line 76) is
  not counted again.
\<close>

fun failure_message :: "message \<Rightarrow> bool" where
  "failure_message (MsgApiError m) = True"
| "failure_message MsgRateLimit = True"
| "failure_message (MsgInformation i) = True"
| "failure_message (MsgMissingKey k) = True"
| "failure_message (MsgWriteError p) = True"
| "failure_message MsgRequestError = True"
| "failure_message MsgJsonError = True"
| "failure_message MsgUnknownError = True"
| "failure_message _ = False"

definition failures :: "event list \<Rightarrow> nat" where
  "failures tr =
     length (filter (\<lambda>ev. case ev of Print m \<Rightarrow> failure_message m | _ \<Rightarrow> False) tr)"

text \<open>More sample environments.\<close>

definition env_no_dir :: env where
  "env_no_dir = env_ok\<lparr>dir_exists := False, makedirs_ok := False\<rparr>"

definition env_status_300 :: env where
  "env_status_300 = env_ok\<lparr>http_get := (\<lambda>symbol. Response 300 (Some ok_body))\<rparr>"

definition env_mixed :: env where
  "env_mixed = env_ok\<lparr>
     http_get := (\<lambda>symbol.
       if symbol = ''SPY'' then Response 200 (Some ok_body)
       else if symbol = ''QQQ'' then Response 500 None
       else if symbol = ''EXS1.DE'' then Response 200 (Some (JObj [(''Error Message'', JStr ''x'')]))
       else if symbol = ''ASHR'' then Response 200 None
       else Response 200 (Some ok_body)),
     write_file := (\<lambda>p. if p = ''data/stock/SPY.json'' then OpenFailed else WriteOk)\<rparr>"

section \<open>Basic facts\<close>

lemma emit_simps [simp]:
  "symbols_processed (emit ev s) = symbols_processed s"
  "files (emit ev s) = files s"
  "trace (emit ev s) = trace s @ [ev]"
  by (simp_all add: emit_def)

lemmas body_defs = iteration_def try_body_def save_def wait_def Let_def

lemmas body_splits =
  http_result.splits option.splits classification.splits write_result.splits

lemma requests_append [simp]: "requests (xs @ ys) = requests xs @ requests ys"
  by (simp add: requests_def)

lemma sleeps_append [simp]: "sleeps (xs @ ys) = sleeps xs + sleeps ys"
  by (simp add: sleeps_def)

lemma requests_simps [simp]:
  "requests [] = []"
  "requests (HttpGet x # tr) = x # requests tr"
  "requests (Print m # tr) = requests tr"
  "requests (Sleep k # tr) = requests tr"
  by (simp_all add: requests_def)

lemma sleeps_simps [simp]:
  "sleeps [] = 0"
  "sleeps (HttpGet x # tr) = sleeps tr"
  "sleeps (Print m # tr) = sleeps tr"
  "sleeps (Sleep k # tr) = Suc (sleeps tr)"
  by (simp_all add: sleeps_def)

subsection \<open>The counter and the requests along the loop\<close>

lemma iteration_processed:
  "symbols_processed (iteration e n item s) =
     symbols_processed s + (if saved e (fst item) then 1 else 0)"
  by (auto simp: body_defs saved_def split: body_splits)

lemma loop_processed:
  "symbols_processed (loop e n items s) =
     symbols_processed s + length (filter (saved e) (map fst items))"
  by (induction items arbitrary: s) (simp_all add: iteration_processed)

lemma iteration_requests:
  "requests (trace (iteration e n item s)) = requests (trace s) @ [fst item]"
  by (auto simp: body_defs split: body_splits)

lemma loop_requests:
  "requests (trace (loop e n items s)) = requests (trace s) @ map fst items"
  by (induction items arbitrary: s) (simp_all add: iteration_requests)

subsection \<open>The files along the loop\<close>

lemma iteration_files_other:
  "p \<noteq> output_path (fst item) \<Longrightarrow> files (iteration e n item s) p = files s p"
  by (auto simp: body_defs split: body_splits)

lemma iteration_files_saved:
  assumes "http_get e symbol = Response status_code (Some data)"
    and "\<not> raise_for_status status_code"
    and "classify data = TimeSeries ts"
    and "write_file e (output_path symbol) = WriteOk"
  shows "files (iteration e n (symbol, d) s) (output_path symbol) = Some (Complete ts)"
  using assms by (auto simp: body_defs split: body_splits)

lemma loop_files_other:
  "p \<notin> output_path ` fst ` set items \<Longrightarrow> files (loop e n items s) p = files s p"
  by (induction items arbitrary: s) (auto simp: iteration_files_other)

lemma startswith_slash: "startswith s ''/'' = (\<exists>t. s = CHR ''/'' # t)"
  by (cases s) auto

lemma output_path_cases:
  "output_path symbol =
     (if startswith symbol ''/'' then symbol @ ''.json''
      else ''data/stock/'' @ symbol @ ''.json'')"
  by (cases symbol) (auto simp: output_path_def path_join_def file_name_def OUTPUT_DIR_def)

lemma output_path_inj: "output_path a = output_path b \<Longrightarrow> a = b"
  by (auto simp: output_path_cases startswith_slash split: if_splits)

lemma loop_files_saved:
  assumes "distinct (map fst items)" and "(symbol, d) \<in> set items"
    and "http_get e symbol = Response status_code (Some data)"
    and "\<not> raise_for_status status_code"
    and "classify data = TimeSeries ts"
    and "write_file e (output_path symbol) = WriteOk"
  shows "files (loop e n items s) (output_path symbol) = Some (Complete ts)"
  using assms(1,2)
proof (induction items arbitrary: s)
  case Nil
  then show ?case by simp
next
  case (Cons item items)
  show ?case
  proof (cases "item = (symbol, d)")
    case True
    with Cons.prems have "symbol \<notin> fst ` set items" by auto
    then have "output_path symbol \<notin> output_path ` fst ` set items"
      by (auto dest: output_path_inj)
    then show ?thesis
      using True iteration_files_saved [OF assms(3-6)] by (simp add: loop_files_other)
  next
    case False
    with Cons.prems have "distinct (map fst items)" "(symbol, d) \<in> set items" by auto
    then show ?thesis using Cons.IH by simp
  qed
qed

subsection \<open>The whole function\<close>

lemma run_ok:
  "dir_exists e \<or> makedirs_ok e \<Longrightarrow>
   run registry e fs =
     process_all registry e
       (if dir_exists e then emit (Print MsgStart) (initial fs)
        else emit (Print (MsgDirCreated OUTPUT_DIR)) (emit (Print MsgStart) (initial fs)))"
  by (auto simp: run_def Let_def)

lemma files_process_all:
  "files (process_all registry e s) p =
     files (loop e (length registry) registry (s\<lparr>symbols_processed := 0\<rparr>)) p"
  by (simp add: process_all_def Let_def)

lemma classify_ok_body: "classify ok_body = TimeSeries ok_series"
  by (simp add: classify_def note_test_def ok_body_def time_series_key_def)

subsection \<open>Classification of a JSON object\<close>

lemma map_of_key: "(k \<in> fst ` set kvs) = (\<exists>v. map_of kvs k = Some v)"
  by (metis map_of_eq_None_iff not_Some_eq)

lemma classify_object:
  assumes "\<forall>v. map_of kvs ''Note'' = Some v \<longrightarrow> (\<exists>t. v = JStr t)"
  shows "classify (JObj kvs) = spec_classify (JObj kvs)"
  using assms
  by (auto simp: classify_def note_test_def spec_classify_def spec_classify_rest_def field_def
      mentions_frequency_def time_series_key_def map_of_key
      split: option.splits bool.splits json.splits)

subsection \<open>Failure lines, the summary and the counter of the whole function\<close>

lemma failures_append [simp]: "failures (xs @ ys) = failures xs + failures ys"
  by (simp add: failures_def)

lemma failures_simps [simp]:
  "failures [] = 0"
  "failures (HttpGet x # tr) = failures tr"
  "failures (Sleep k # tr) = failures tr"
  "failures (Print m # tr) = (if failure_message m then Suc (failures tr) else failures tr)"
  by (simp_all add: failures_def)

lemma iteration_failures:
  "failures (trace (iteration e n item s)) =
     failures (trace s) + (if saved e (fst item) then 0 else 1)"
  by (auto simp: body_defs saved_def split: body_splits)

lemma loop_failures:
  "failures (trace (loop e n items s)) =
     failures (trace s) + length (filter (\<lambda>symbol. \<not> saved e symbol) (map fst items))"
  by (induction items arbitrary: s) (simp_all add: iteration_failures)

lemma trace_process_all:
  "trace (process_all registry e s) =
     trace (loop e (length registry) registry (s\<lparr>symbols_processed := 0\<rparr>)) @
     [Print (MsgSummary
        (symbols_processed (loop e (length registry) registry (s\<lparr>symbols_processed := 0\<rparr>)))
        (length registry))]"
  by (simp add: process_all_def Let_def)

lemma processed_process_all:
  "symbols_processed (process_all registry e s) =
     length (filter (saved e) (map fst registry))"
  by (simp add: process_all_def Let_def loop_processed)

lemma last_trace_process_all:
  "last (trace (process_all registry e s)) =
     Print (MsgSummary (length (filter (saved e) (map fst registry))) (length registry))"
  by (simp add: trace_process_all loop_processed)

lemma requests_run:
  assumes "dir_exists e \<or> makedirs_ok e"
  shows "requests (trace (run registry e fs)) = map fst registry"
  using assms by (auto simp: run_ok trace_process_all loop_requests initial_def)

lemma failures_run:
  assumes "dir_exists e \<or> makedirs_ok e"
  shows "failures (trace (run registry e fs)) =
           length (filter (\<lambda>symbol. \<not> saved e symbol) (map fst registry))"
  using assms by (auto simp: run_ok trace_process_all loop_failures initial_def)

lemma processed_run:
  assumes "dir_exists e \<or> makedirs_ok e"
  shows "symbols_processed (run registry e fs) = length (filter (saved e) (map fst registry))"
  by (simp only: run_ok [OF assms] processed_process_all)

lemma last_trace_run:
  assumes "dir_exists e \<or> makedirs_ok e"
  shows "last (trace (run registry e fs)) =
     Print (MsgSummary (length (filter (saved e) (map fst registry))) (length registry))"
  by (simp only: run_ok [OF assms] last_trace_process_all)

lemma iteration_saved_effects:
  assumes "saved e (fst item)"
  shows "write_file e (output_path (fst item)) = WriteOk \<and>
      (\<exists>ts. files (iteration e n item s) (output_path (fst item)) = Some (Complete ts)) \<and>
      Print (MsgSaved (output_path (fst item))) \<in> set (trace (iteration e n item s))"
  using assms by (auto simp: body_defs saved_def split: body_splits if_splits)

lemma iteration_counter_step:
  assumes "symbols_processed (iteration e n item s) \<noteq> symbols_processed s"
  shows "write_file e (output_path (fst item)) = WriteOk \<and>
      (\<exists>ts. files (iteration e n item s) (output_path (fst item)) = Some (Complete ts)) \<and>
      Print (MsgSaved (output_path (fst item))) \<in> set (trace (iteration e n item s))"
proof -
  from assms have "saved e (fst item)"
    by (simp add: iteration_processed split: if_splits)
  then show ?thesis by (rule iteration_saved_effects)
qed

lemma processed_run_le: "symbols_processed (run registry e fs) \<le> length registry"
proof (cases "dir_exists e \<or> makedirs_ok e")
  case True
  then show ?thesis
    by (simp add: processed_run le_trans [OF length_filter_le])
next
  case False
  then show ?thesis
    by (simp add: run_def initial_def Let_def)
qed

lemma saved_response:
  assumes "saved e symbol"
  shows "\<exists>status_code data ts. http_get e symbol = Response status_code (Some data) \<and>
           \<not> raise_for_status status_code \<and> classify data = TimeSeries ts \<and>
           write_file e (output_path symbol) = WriteOk"
  using assms by (auto simp: saved_def split: body_splits)

lemma files_run_changed:
  assumes "files (run registry e fs) p \<noteq> fs p"
  shows "p \<in> output_path ` fst ` set registry"
proof (rule ccontr)
  assume other: "p \<notin> output_path ` fst ` set registry"
  show False
  proof (cases "dir_exists e \<or> makedirs_ok e")
    case True
    then have "files (run registry e fs) p = fs p"
      by (auto simp: run_ok files_process_all loop_files_other [OF other] initial_def)
    with assms show False by simp
  next
    case False
    then have "files (run registry e fs) p = fs p"
      by (simp add: run_def initial_def Let_def)
    with assms show False by simp
  qed
qed

subsection \<open>The success lines and the files of a run\<close>

lemma saved_paths_append [simp]: "saved_paths (xs @ ys) = saved_paths xs @ saved_paths ys"
  by (simp add: saved_paths_def)

lemma saved_paths_simps [simp]:
  "saved_paths [] = []"
  "saved_paths (HttpGet x # tr) = saved_paths tr"
  "saved_paths (Sleep k # tr) = saved_paths tr"
  "saved_paths (Print m # tr) = (case m of MsgSaved p \<Rightarrow> [p] | _ \<Rightarrow> []) @ saved_paths tr"
  by (simp_all add: saved_paths_def)




lemma output_path_spelled: "output_path symbol = path_join OUTPUT_DIR (symbol @ ''.json'')"
  by (simp add: output_path_def file_name_def)


subsection \<open>The sleeps of a run in which every symbol is saved\<close>

lemma iteration_sleeps_saved:
  assumes "saved e (fst item)"
  shows "sleeps (trace (iteration e n item s)) =
           sleeps (trace s) + (if symbols_processed s + 1 < n then 1 else 0)"
  using assms by (auto simp: body_defs saved_def split: body_splits)

lemma loop_sleeps_saved:
  assumes "\<forall>item \<in> set items. saved e (fst item)"
    and "symbols_processed s + length items = n"
  shows "sleeps (trace (loop e n items s)) = sleeps (trace s) + (length items - 1)"
  using assms
proof (induction items arbitrary: s)
  case Nil
  then show ?case by simp
next
  case (Cons item items)
  from Cons.prems have sv: "saved e (fst item)" by simp
  have "symbols_processed (iteration e n item s) + length items = n"
    using Cons.prems sv by (simp add: iteration_processed)
  with Cons have "sleeps (trace (loop e n items (iteration e n item s))) =
      sleeps (trace (iteration e n item s)) + (length items - 1)"
    by simp
  with Cons.prems show ?case
    by (cases items) (auto simp: iteration_sleeps_saved [OF sv])
qed

lemma all_saved_sleeps:
  assumes "dir_exists e \<or> makedirs_ok e"
    and "\<forall>item \<in> set registry. saved e (fst item)"
  shows "sleeps (trace (run registry e fs)) = length registry - 1"
  using assms loop_sleeps_saved [OF assms(2), of _ "length registry"]
  by (auto simp: run_ok trace_process_all initial_def)

subsection \<open>The sample environments\<close>

lemma classify_error_message:
  "classify (JObj [(''Error Message'', JStr ''x'')]) = ApiError (JStr ''x'')"
  by (simp add: classify_def)

lemma saved_env_mixed:
  "saved env_mixed ''SPY'' = False"
  "saved env_mixed ''QQQ'' = False"
  "saved env_mixed ''EXS1.DE'' = False"
  "saved env_mixed ''ASHR'' = False"
  "saved env_mixed ''EWJ'' = True"
  by (simp_all add: saved_def env_mixed_def env_ok_def raise_for_status_def classify_ok_body
      classify_error_message output_path_cases)

lemma saved_env_ok: "saved env_ok symbol"
  by (simp add: saved_def env_ok_def raise_for_status_def classify_ok_body)

lemma dir_env_ok: "dir_exists env_ok \<or> makedirs_ok env_ok"
  by (simp add: env_ok_def)

section \<open>The claims\<close>

text \<open>
  C1. The claim: over N symbols the script sleeps exactly N - 1 times, after every symbol
  but the last, however many symbols succeeded or failed. The guard of line 118 compares
  the counter of saved symbols with the total, not the position of the symbol, and the
  \<^verbatim>\<open>continue\<close> statements of lines 73, 80, 83 and 90 jump over the wait. The count is
  N - 1 when every symbol is saved (\<open>all_saved_sleeps\<close>). On the five symbols of the
  registry: four sleeps when all are saved; five, one after the last symbol too, when
  every request is answered with status 500; none when every answer carries an
  \<open>Error Message\<close>.
\<close>

theorem sleep_count_follows_the_counter:
  "length SYMBOLS = 5 \<and>
   sleeps (trace (fetch_and_save_stock_data env_ok Map.empty)) = 4 \<and>
   sleeps (trace (fetch_and_save_stock_data env_http_500 Map.empty)) = 5 \<and>
   sleeps (trace (fetch_and_save_stock_data env_error_message Map.empty)) = 0"
proof (intro conjI)
  show "length SYMBOLS = 5"
    by (simp add: SYMBOLS_def)
  show "sleeps (trace (fetch_and_save_stock_data env_ok Map.empty)) = 4"
    by (simp add: fetch_and_save_stock_data_def all_saved_sleeps [OF dir_env_ok]
        saved_env_ok SYMBOLS_def)
  show "sleeps (trace (fetch_and_save_stock_data env_http_500 Map.empty)) = 5"
    by (simp add: fetch_and_save_stock_data_def run_def process_all_def SYMBOLS_def
        env_http_500_def env_ok_def initial_def body_defs raise_for_status_def)
  show "sleeps (trace (fetch_and_save_stock_data env_error_message Map.empty)) = 0"
    by (simp add: fetch_and_save_stock_data_def run_def process_all_def SYMBOLS_def
        env_error_message_def env_ok_def initial_def body_defs raise_for_status_def
        classify_error_message)
qed

text \<open>
  C2. When the directory is there, the keys of the registry are distinct (it is a dict),
  the response for a symbol of the registry is classified as a time series \<open>ts\<close> and the
  write to \<^verbatim>\<open>os.path.join(OUTPUT_DIR, symbol + ".json")\<close> goes through, then \<open>ts\<close> is
  the value under the key \<open>Time Series (Daily)\<close> of the response, and at the end of the
  run the file at that path holds exactly \<open>ts\<close>, not the whole response. For a symbol that
  does not start with a slash the path is \<open>data/stock/\<close>, the symbol and \<open>.json\<close>.
\<close>

theorem saved_file_holds_time_series:
  assumes "dir_exists e \<or> makedirs_ok e"
    and "distinct (map fst registry)" and "(symbol, d) \<in> set registry"
    and "http_get e symbol = Response status_code (Some data)"
    and "\<not> raise_for_status status_code"
    and "classify data = TimeSeries ts"
    and "write_file e (path_join OUTPUT_DIR (symbol @ ''.json'')) = WriteOk"
  shows "py_getitem data ''Time Series (Daily)'' = Some ts \<and>
         files (run registry e fs) (path_join OUTPUT_DIR (symbol @ ''.json''))
           = Some (Complete ts) \<and>
         (\<not> startswith symbol ''/'' \<longrightarrow>
            files (run registry e fs) (''data/stock/'' @ symbol @ ''.json'')
              = Some (Complete ts))"
proof -
  have under_key: "py_getitem data ''Time Series (Daily)'' = Some ts"
    using assms(6)
    by (auto simp: classify_def time_series_key_def split: option.splits bool.splits)
  have wr: "write_file e (output_path symbol) = WriteOk"
    using assms(7) by (simp add: output_path_spelled)
  have written: "files (run registry e fs) (output_path symbol) = Some (Complete ts)"
    using loop_files_saved [OF assms(2-6) wr]
    by (simp add: run_ok [OF assms(1)] files_process_all)
  from under_key written show ?thesis
    by (auto simp: output_path_spelled [symmetric] output_path_cases)
qed

theorem saved_file_holds_time_series_witness:
  "py_getitem ok_body ''Time Series (Daily)'' = Some ok_series \<and>
   files (run SYMBOLS env_ok Map.empty) ''data/stock/EXS1.DE.json'' = Some (Complete ok_series)"
proof -
  have keys: "distinct (map fst SYMBOLS)"
    by (simp add: SYMBOLS_def)
  have item: "(''EXS1.DE'', ''DAX (EXS1.DE)'') \<in> set SYMBOLS"
    by (simp add: SYMBOLS_def)
  have resp: "http_get env_ok ''EXS1.DE'' = Response 200 (Some ok_body)"
    by (simp add: env_ok_def)
  have status: "\<not> raise_for_status 200"
    by (simp add: raise_for_status_def)
  have wr: "write_file env_ok (path_join OUTPUT_DIR (''EXS1.DE'' @ ''.json'')) = WriteOk"
    by (simp add: env_ok_def)
  from saved_file_holds_time_series [OF dir_env_ok keys item resp status classify_ok_body wr, of Map.empty]
  show ?thesis by simp
qed

text \<open>
  C3. The claim: every parsed response is classified in the priority order error message,
  rate limit note, information, time series, missing key. The response with a \<open>Note\<close> of
  \<^verbatim>\<open>null\<close> and a time series is, by that order, persisted; in the code the test
  \<^verbatim>\<open>"API call frequency" in data["Note"]\<close> raises \<^verbatim>\<open>TypeError\<close> on it, and
  the last \<^verbatim>\<open>except\<close> clause handles the symbol.
\<close>

theorem note_null_is_not_persisted:
  "spec_classify note_null_series = TimeSeries ok_series \<and> classify note_null_series = Raised"
  by (simp add: spec_classify_def spec_classify_rest_def field_def mentions_frequency_def
      classify_def note_test_def note_null_series_def)

text \<open>
  C3, amended. For a response that is a JSON object whose \<open>Note\<close>, when there is one, is a
  string, the code classifies in the priority order of the specification. A response
  classified as a time series goes on to the write; every other one leaves the loop body
  by \<^verbatim>\<open>continue\<close> with the files and the counter as they were.
\<close>

theorem object_classified_in_priority_order:
  assumes "\<forall>v. map_of kvs ''Note'' = Some v \<longrightarrow> (\<exists>t. v = JStr t)"
    and "http_get e symbol = Response status_code (Some (JObj kvs))"
    and "\<not> raise_for_status status_code"
  shows "classify (JObj kvs) = spec_classify (JObj kvs) \<and>
         (case spec_classify (JObj kvs) of
            TimeSeries ts \<Rightarrow>
              try_body e symbol s = (FallThrough, save e symbol ts (emit (HttpGet symbol) s))
          | _ \<Rightarrow>
              fst (try_body e symbol s) = Continue \<and>
              files (snd (try_body e symbol s)) = files s \<and>
              symbols_processed (snd (try_body e symbol s)) = symbols_processed s)"
proof -
  have c: "classify (JObj kvs) = spec_classify (JObj kvs)"
    using assms(1) by (rule classify_object)
  have "spec_classify (JObj kvs) \<noteq> Raised"
    by (auto simp: spec_classify_def spec_classify_rest_def split: option.splits)
  with c assms(2,3) show ?thesis
    by (auto simp: try_body_def Let_def split: classification.splits)
qed

theorem object_classified_in_priority_order_witness:
  "classify (JObj [(''Note'', JStr ''Our standard API call frequency is 5 calls per minute.'')])
     = RateLimit (JStr ''Our standard API call frequency is 5 calls per minute.'') \<and>
   fst (try_body env_rate_limit ''SPY'' (initial Map.empty)) = Continue \<and>
   files (snd (try_body env_rate_limit ''SPY'' (initial Map.empty))) = Map.empty \<and>
   symbols_processed (snd (try_body env_rate_limit ''SPY'' (initial Map.empty))) = 0"
  using object_classified_in_priority_order
    [of "[(''Note'', JStr ''Our standard API call frequency is 5 calls per minute.'')]"
        env_rate_limit "''SPY''" 200 "initial Map.empty"]
  by (simp add: env_rate_limit_def env_ok_def raise_for_status_def initial_def
      spec_classify_def field_def mentions_frequency_def)

text \<open>
  C4. When the parsed response for a symbol contains \<open>Error Message\<close>, the iteration for
  that symbol leaves every file as it was and does not change the counter.
\<close>

theorem error_message_writes_nothing:
  assumes "http_get e symbol = Response status_code (Some data)"
    and "py_in ''Error Message'' data = Some True"
  shows "files (iteration e n (symbol, d) s) = files s \<and>
         symbols_processed (iteration e n (symbol, d) s) = symbols_processed s"
  using assms by (auto simp: body_defs classify_def split: body_splits)

theorem error_message_writes_nothing_witness:
  "files (iteration env_error_message 5 (''SPY'', ''S&P 500 (SPY)'') (initial Map.empty))
     = Map.empty \<and>
   symbols_processed
     (iteration env_error_message 5 (''SPY'', ''S&P 500 (SPY)'') (initial Map.empty)) = 0"
  using error_message_writes_nothing
    [of env_error_message "''SPY''" 200 "JObj [(''Error Message'', JStr ''x'')]"
        5 "''S&P 500 (SPY)''" "initial Map.empty"]
  by (simp add: env_error_message_def env_ok_def initial_def)

text \<open>
  C5. When the output directory is missing and cannot be created, the function prints
  the error and returns: no request is issued and no file is touched. In every other run
  each symbol of the registry is requested exactly once, in registry order, whatever
  happens to the symbols before it; each symbol that is not saved leaves exactly one
  failure line on the console; and the last line is the summary.
\<close>

theorem only_directory_failure_aborts:
  "(\<not> dir_exists e \<and> \<not> makedirs_ok e \<longrightarrow>
      trace (run registry e fs) = [Print MsgStart, Print (MsgDirError OUTPUT_DIR)] \<and>
      requests (trace (run registry e fs)) = [] \<and>
      files (run registry e fs) = fs) \<and>
   (dir_exists e \<or> makedirs_ok e \<longrightarrow>
      requests (trace (run registry e fs)) = map fst registry \<and>
      failures (trace (run registry e fs)) =
        length (filter (\<lambda>symbol. \<not> saved e symbol) (map fst registry)) \<and>
      last (trace (run registry e fs)) =
        Print (MsgSummary (symbols_processed (run registry e fs)) (length registry)))"
proof (intro conjI impI)
  assume "\<not> dir_exists e \<and> \<not> makedirs_ok e"
  then show "trace (run registry e fs) = [Print MsgStart, Print (MsgDirError OUTPUT_DIR)]"
    "requests (trace (run registry e fs)) = []" "files (run registry e fs) = fs"
    by (simp_all add: run_def initial_def)
next
  assume ok: "dir_exists e \<or> makedirs_ok e"
  then show "requests (trace (run registry e fs)) = map fst registry"
    by (rule requests_run)
  from ok show "failures (trace (run registry e fs)) =
        length (filter (\<lambda>symbol. \<not> saved e symbol) (map fst registry))"
    by (rule failures_run)
  from ok show "last (trace (run registry e fs)) =
        Print (MsgSummary (symbols_processed (run registry e fs)) (length registry))"
    by (simp only: last_trace_run processed_run)
qed

theorem only_directory_failure_aborts_witness:
  "trace (run SYMBOLS env_no_dir Map.empty) = [Print MsgStart, Print (MsgDirError OUTPUT_DIR)] \<and>
   requests (trace (run SYMBOLS env_no_dir Map.empty)) = [] \<and>
   files (run SYMBOLS env_no_dir Map.empty) = Map.empty \<and>
   requests (trace (run SYMBOLS env_mixed Map.empty))
     = [''SPY'', ''QQQ'', ''EXS1.DE'', ''ASHR'', ''EWJ''] \<and>
   failures (trace (run SYMBOLS env_mixed Map.empty)) = 4 \<and>
   last (trace (run SYMBOLS env_mixed Map.empty)) = Print (MsgSummary 1 5)"
proof -
  have no_dir: "\<not> dir_exists env_no_dir \<and> \<not> makedirs_ok env_no_dir"
    by (simp add: env_no_dir_def env_ok_def)
  have dir: "dir_exists env_mixed \<or> makedirs_ok env_mixed"
    by (simp add: env_mixed_def env_ok_def)
  have counter: "symbols_processed (run SYMBOLS env_mixed Map.empty) = 1"
    by (simp add: processed_run [OF dir] SYMBOLS_def saved_env_mixed)
  show ?thesis
    using only_directory_failure_aborts [of env_no_dir SYMBOLS Map.empty]
      only_directory_failure_aborts [of env_mixed SYMBOLS Map.empty]
      no_dir dir counter
    by (simp add: SYMBOLS_def saved_env_mixed)
qed

text \<open>
  C6. A run changes no file other than those at
  \<^verbatim>\<open>os.path.join(OUTPUT_DIR, symbol + ".json")\<close> for the symbols of the registry; for
  a symbol that does not start with a slash that path is \<open>data/stock/\<close>, the symbol
  unchanged, and \<open>.json\<close>; and a symbol that is saved has its file there. The symbol
  \<open>EXS1.DE\<close> of the registry keeps its period.
\<close>

theorem files_named_after_symbols:
  "(files (run registry e fs) p \<noteq> fs p \<longrightarrow>
      (\<exists>item \<in> set registry. p = path_join OUTPUT_DIR (fst item @ ''.json''))) \<and>
   (\<not> startswith symbol ''/'' \<longrightarrow>
      path_join OUTPUT_DIR (symbol @ ''.json'') = ''data/stock/'' @ symbol @ ''.json'') \<and>
   ((dir_exists e \<or> makedirs_ok e) \<and> distinct (map fst registry) \<and>
    (symbol, d) \<in> set registry \<and> saved e symbol \<longrightarrow>
      (\<exists>ts. files (run registry e fs) (path_join OUTPUT_DIR (symbol @ ''.json''))
         = Some (Complete ts)))"
proof (intro conjI impI)
  assume "files (run registry e fs) p \<noteq> fs p"
  then have "p \<in> output_path ` fst ` set registry"
    by (rule files_run_changed)
  then show "\<exists>item \<in> set registry. p = path_join OUTPUT_DIR (fst item @ ''.json'')"
    by (auto simp: output_path_def file_name_def)
next
  assume "\<not> startswith symbol ''/''"
  then show "path_join OUTPUT_DIR (symbol @ ''.json'') = ''data/stock/'' @ symbol @ ''.json''"
    using output_path_cases [of symbol] by (simp add: output_path_def file_name_def)
next
  assume a: "(dir_exists e \<or> makedirs_ok e) \<and> distinct (map fst registry) \<and>
    (symbol, d) \<in> set registry \<and> saved e symbol"
  then obtain status_code data ts where
    r: "http_get e symbol = Response status_code (Some data)"
      "\<not> raise_for_status status_code" "classify data = TimeSeries ts"
      "write_file e (output_path symbol) = WriteOk"
    using saved_response by blast
  from a have "files (loop e (length registry) registry s) (output_path symbol)
      = Some (Complete ts)" for s
    using loop_files_saved [OF _ _ r] by blast
  with a show "\<exists>ts. files (run registry e fs) (path_join OUTPUT_DIR (symbol @ ''.json''))
         = Some (Complete ts)"
    by (auto simp: run_ok files_process_all output_path_def file_name_def)
qed

theorem files_named_after_symbols_witness:
  "files (run SYMBOLS env_ok Map.empty) ''data/stock/EXS1.DE.json'' \<noteq> None \<and>
   path_join OUTPUT_DIR (''EXS1.DE'' @ ''.json'') = ''data/stock/EXS1.DE.json''"
proof -
  have keys: "distinct (map fst SYMBOLS)"
    by (simp add: SYMBOLS_def)
  have item: "(''EXS1.DE'', ''DAX (EXS1.DE)'') \<in> set SYMBOLS"
    by (simp add: SYMBOLS_def)
  have relative: "\<not> startswith ''EXS1.DE'' ''/''"
    by simp
  from files_named_after_symbols
      [of SYMBOLS env_ok Map.empty "''data/stock/EXS1.DE.json''" "''EXS1.DE''"
          "''DAX (EXS1.DE)''"]
    dir_env_ok keys item relative saved_env_ok [of "''EXS1.DE''"]
  show ?thesis by auto
qed

text \<open>
  C7. The claim: every status other than 2xx is a request failure. The status check of
  line 66 raises for 4xx and 5xx only; a response with status 300 and a time series in
  its body is saved like one with status 200.
\<close>

theorem status_300_is_saved:
  "http_get env_status_300 ''SPY'' = Response 300 (Some ok_body) \<and>
   \<not> raise_for_status 300 \<and>
   files (iteration env_status_300 5 (''SPY'', ''S&P 500 (SPY)'') (initial Map.empty))
     (output_path ''SPY'') = Some (Complete ok_series) \<and>
   symbols_processed
     (iteration env_status_300 5 (''SPY'', ''S&P 500 (SPY)'') (initial Map.empty)) = 1"
proof -
  have resp: "http_get env_status_300 ''SPY'' = Response 300 (Some ok_body)"
    by (simp add: env_status_300_def env_ok_def)
  have status: "\<not> raise_for_status 300"
    by (simp add: raise_for_status_def)
  have wr: "write_file env_status_300 (output_path ''SPY'') = WriteOk"
    by (simp add: env_status_300_def env_ok_def)
  have "saved env_status_300 ''SPY''"
    by (simp add: saved_def resp status wr classify_ok_body)
  then have "symbols_processed
     (iteration env_status_300 5 (''SPY'', ''S&P 500 (SPY)'') (initial Map.empty)) = 1"
    by (simp add: iteration_processed initial_def)
  with resp status iteration_files_saved [OF resp status classify_ok_body wr]
  show ?thesis by simp
qed

text \<open>
  C7, amended. A response whose status is 4xx or 5xx is a request failure for that symbol
  only: the error is printed, no file is changed, the counter stays, the symbol is
  requested once and not again, and the loop goes on to request the symbols after it.
\<close>

theorem http_error_status_skips_symbol:
  assumes "http_get e symbol = Response status_code body"
    and "raise_for_status status_code"
  shows "files (iteration e n (symbol, d) s) = files s \<and>
         symbols_processed (iteration e n (symbol, d) s) = symbols_processed s \<and>
         Print MsgRequestError \<in> set (trace (iteration e n (symbol, d) s)) \<and>
         requests (trace (iteration e n (symbol, d) s)) = requests (trace s) @ [symbol] \<and>
         requests (trace (loop e n ((symbol, d) # rest) s))
           = requests (trace s) @ symbol # map fst rest"
proof (intro conjI)
  show "files (iteration e n (symbol, d) s) = files s"
    "symbols_processed (iteration e n (symbol, d) s) = symbols_processed s"
    "Print MsgRequestError \<in> set (trace (iteration e n (symbol, d) s))"
    using assms by (simp_all add: body_defs)
  show "requests (trace (iteration e n (symbol, d) s)) = requests (trace s) @ [symbol]"
    by (simp add: iteration_requests)
  show "requests (trace (loop e n ((symbol, d) # rest) s))
           = requests (trace s) @ symbol # map fst rest"
    by (simp add: loop_requests iteration_requests)
qed

theorem http_error_status_skips_symbol_witness:
  "files (iteration env_http_500 5 (''SPY'', ''S&P 500 (SPY)'') (initial Map.empty)) = Map.empty \<and>
   symbols_processed
     (iteration env_http_500 5 (''SPY'', ''S&P 500 (SPY)'') (initial Map.empty)) = 0 \<and>
   requests (trace (iteration env_http_500 5 (''SPY'', ''S&P 500 (SPY)'') (initial Map.empty)))
     = [''SPY''] \<and>
   requests (trace (loop env_http_500 5 [(''SPY'', ''S&P 500 (SPY)''), (''QQQ'', ''Nasdaq (QQQ)'')]
     (initial Map.empty))) = [''SPY'', ''QQQ'']"
  using http_error_status_skips_symbol
    [of env_http_500 "''SPY''" 500 None 5 "''S&P 500 (SPY)''" "initial Map.empty"
        "[(''QQQ'', ''Nasdaq (QQQ)'')]"]
  by (simp add: env_http_500_def env_ok_def initial_def raise_for_status_def)



text \<open>
  C9. The claim: a response with a \<open>Note\<close> whose value does not contain
  \<open>API call frequency\<close>, and with none of the other keys, falls through to the missing
  key branch. The response whose only key is a \<open>Note\<close> of the number 5 does not get
  there: the membership test raises on the number.
\<close>

theorem note_number_raises:
  "field note_number ''Note'' = Some (JNum ''5'') \<and>
   \<not> mentions_frequency (JNum ''5'') \<and>
   classify note_number = Raised"
  by (simp add: field_def mentions_frequency_def classify_def note_test_def note_number_def)

text \<open>
  C9, amended. When the \<open>Note\<close> of a JSON object is a string, a list or an object, and
  the test \<^verbatim>\<open>"API call frequency" in data["Note"]\<close> is false of it, the response is not
  classified as a rate limit; and when the object has none of the keys
  \<open>Error Message\<close>, \<open>Information\<close> and \<open>Time Series (Daily)\<close>, it is classified as
  missing the key, and the iteration leaves the files and the counter as they were.
\<close>

theorem note_without_frequency_is_missing_key:
  assumes "map_of kvs ''Note'' = Some v"
    and "py_in ''API call frequency'' v = Some False"
    and "http_get e symbol = Response status_code (Some (JObj kvs))"
  shows "(\<forall>n. classify (JObj kvs) \<noteq> RateLimit n) \<and>
         (''Error Message'' \<notin> fst ` set kvs \<and> ''Information'' \<notin> fst ` set kvs \<and>
          time_series_key \<notin> fst ` set kvs \<longrightarrow>
            classify (JObj kvs) = MissingKey \<and>
            files (iteration e n (symbol, d) s) = files s \<and>
            symbols_processed (iteration e n (symbol, d) s) = symbols_processed s)"
  using assms
  by (auto simp: classify_def note_test_def map_of_key body_defs
      split: option.splits bool.splits body_splits)

theorem note_without_frequency_is_missing_key_witness:
  "classify (JObj [(''Note'', JStr ''Thank you'')]) = MissingKey \<and>
   files (iteration env_note_thanks 5 (''SPY'', ''S&P 500 (SPY)'') (initial Map.empty))
     = Map.empty \<and>
   symbols_processed
     (iteration env_note_thanks 5 (''SPY'', ''S&P 500 (SPY)'') (initial Map.empty)) = 0"
  using note_without_frequency_is_missing_key
    [of "[(''Note'', JStr ''Thank you'')]" "JStr ''Thank you''" env_note_thanks "''SPY''" 200
        5 "''S&P 500 (SPY)''" "initial Map.empty"]
  by (simp add: env_note_thanks_def env_ok_def initial_def time_series_key_def)

text \<open>
  C10. The counter is set to zero before the loop (a run over an empty registry ends
  with zero, whatever the counter was); an iteration leaves it or adds one; it adds one
  only when the write succeeded, the file holds a complete value and the success line
  was printed; and at the end it is at most the number of symbols of the registry.
\<close>

theorem counter_increments_only_on_save:
  "symbols_processed (process_all [] e s) = 0 \<and>
   symbols_processed s \<le> symbols_processed (iteration e n item s) \<and>
   symbols_processed (iteration e n item s) \<le> symbols_processed s + 1 \<and>
   (symbols_processed (iteration e n item s) \<noteq> symbols_processed s \<longrightarrow>
      write_file e (output_path (fst item)) = WriteOk \<and>
      (\<exists>ts. files (iteration e n item s) (output_path (fst item)) = Some (Complete ts)) \<and>
      Print (MsgSaved (output_path (fst item))) \<in> set (trace (iteration e n item s))) \<and>
   symbols_processed (process_all registry e s) \<le> length registry \<and>
   symbols_processed (run registry e fs) \<le> length registry"
proof (intro conjI impI)
  show "symbols_processed (process_all [] e s) = 0"
    by (simp add: processed_process_all)
  show "symbols_processed s \<le> symbols_processed (iteration e n item s)"
    "symbols_processed (iteration e n item s) \<le> symbols_processed s + 1"
    by (simp_all add: iteration_processed)
  show "symbols_processed (process_all registry e s) \<le> length registry"
    by (simp add: processed_process_all le_trans [OF length_filter_le])
  show "symbols_processed (run registry e fs) \<le> length registry"
    by (rule processed_run_le)
next
  assume "symbols_processed (iteration e n item s) \<noteq> symbols_processed s"
  from iteration_counter_step [OF this]
  show "write_file e (output_path (fst item)) = WriteOk"
    "\<exists>ts. files (iteration e n item s) (output_path (fst item)) = Some (Complete ts)"
    "Print (MsgSaved (output_path (fst item))) \<in> set (trace (iteration e n item s))"
    by simp_all
qed


theorem counter_increments_only_on_save_witness:
  "symbols_processed (iteration env_ok 5 (''SPY'', ''S&P 500 (SPY)'') (initial Map.empty)) = 1 \<and>
   write_file env_ok (output_path ''SPY'') = WriteOk \<and>
   files (iteration env_ok 5 (''SPY'', ''S&P 500 (SPY)'') (initial Map.empty))
     (output_path ''SPY'') \<noteq> None \<and>
   symbols_processed (run SYMBOLS env_ok Map.empty) \<le> 5"
proof -
  have step: "symbols_processed (iteration env_ok 5 (''SPY'', ''S&P 500 (SPY)'') (initial Map.empty)) = 1"
    by (simp add: iteration_processed saved_env_ok initial_def)
  have start: "symbols_processed (initial Map.empty) = 0"
    by (simp add: initial_def)
  have total: "length SYMBOLS = 5"
    by (simp add: SYMBOLS_def)
  from counter_increments_only_on_save [of env_ok "initial Map.empty" 5 "(''SPY'', ''S&P 500 (SPY)'')" SYMBOLS Map.empty]
    step start total
  show ?thesis by auto
qed

end
